theory Spec2Isabelle
  imports Main "HOL-Library.Word" "HOL-Library.Signed_Division"
begin

section \<open>The Qt values the two headers use\<close>

text \<open>
  A C++ \<^verbatim>\<open>int\<close> is a 32-bit word. Comparisons are the signed ones (\<open><s\<close>, \<open>\<le>s\<close>)
  and \<open>sint\<close> reads the value. Signed overflow, which C++ leaves undefined, is taken as
  the wrap-around of two's complement: \<open>+\<close> and \<open>*\<close> on words.
\<close>

type_synonym cint = "32 word"

text \<open>
  \<^verbatim>\<open>Q_ASSERT\<close> aborts the program in a debug build and expands to nothing in a
  release build, so every function that asserts takes the build as an argument.
\<close>

datatype build = Debug | Release

text \<open>
  The ways a call can fail to return: a failed \<^verbatim>\<open>Q_ASSERT\<close>, an index handed to
  \<^verbatim>\<open>std::vector::operator[]\<close> outside the vector, an integer division by zero, and
  the \<^verbatim>\<open>std::length_error\<close> of \<^verbatim>\<open>std::vector::reserve\<close>.
\<close>

datatype error = AssertionFailed | OutOfBounds | DivisionByZero | LengthError

text \<open>\<^verbatim>\<open>QPoint\<close>: two ints; \<^verbatim>\<open>QPoint()\<close> is (0, 0); \<^verbatim>\<open>isNull()\<close> holds when both are 0.\<close>

datatype QPoint = QPoint (QPoint_x: cint) (QPoint_y: cint)

definition QPoint_default :: QPoint where
  "QPoint_default = QPoint 0 0"

definition QPoint_isNull :: "QPoint \<Rightarrow> bool" where
  "QPoint_isNull p = (QPoint_x p = 0 \<and> QPoint_y p = 0)"

text \<open>
  \<^verbatim>\<open>QPixmap\<close>: the decoded source image, known by the resource path it was loaded
  from, with its width and height in pixels. Qt calls a pixmap null when its width or
  its height is not positive; a resource that failed to load is 0 by 0.
\<close>

datatype QPixmap = QPixmap (QPixmap_path: string) (QPixmap_width: cint) (QPixmap_height: cint)

definition QPixmap_isNull :: "QPixmap \<Rightarrow> bool" where
  "QPixmap_isNull p = (QPixmap_width p \<le>s 0 \<or> QPixmap_height p \<le>s 0)"

text \<open>
  \<^verbatim>\<open>QIcon\<close>: either the default-constructed empty icon \<^verbatim>\<open>QIcon()\<close>, or the icon
  built from \<^verbatim>\<open>pixmap.copy(x, y, w, h)\<close>, the deep copy of the rectangle of size
  (w, h) whose origin is (x, y). The copy itself is Qt's; it is kept symbolic.
\<close>

datatype QIcon = QIcon_default | QIcon_copy QPixmap cint cint cint cint

text \<open>
  The C++ division of two ints: truncating (\<open>sdiv\<close>), and undefined for a zero divisor.
  The quotient of the least int by -1 wraps, as a sum or a product does.
\<close>

definition int_div :: "cint \<Rightarrow> cint \<Rightarrow> error + cint" where
  "int_div a b = (if b = 0 then Inl DivisionByZero else Inr (word_of_int (sint a sdiv sint b)))"

text \<open>
  \<^verbatim>\<open>m_icons[i]\<close> with an int index: the index is converted to \<^verbatim>\<open>size_t\<close>, so a
  negative one is far beyond the end; reading outside the vector is undefined.
\<close>

definition vector_at :: "'a list \<Rightarrow> cint \<Rightarrow> error + 'a" where
  "vector_at v i =
     (if 0 \<le>s i \<and> nat (sint i) < length v then Inr (v ! nat (sint i)) else Inl OutOfBounds)"

text \<open>\<^verbatim>\<open>static_cast<int>(v.size())\<close>: the size modulo \<open>2 ^ 32\<close>, read as an int.\<close>

definition vector_size :: "'a list \<Rightarrow> cint" where
  "vector_size v = word_of_nat (length v)"

section \<open>QIconSet\<close>

record QIconSet =
  m_iconset :: QPixmap
  m_icons :: "QIcon list"
  m_matrixSize :: QPoint
  m_iconSize :: QPoint
  m_invalidIcon :: QIcon

subsection \<open>Queries\<close>

definition toIndex :: "QIconSet \<Rightarrow> cint \<Rightarrow> cint \<Rightarrow> cint" where
  "toIndex s col row = row * QPoint_x (m_matrixSize s) + col"

text \<open>\<^verbatim>\<open>isValid(int index)\<close> and \<^verbatim>\<open>isValid(int col, int row)\<close>.\<close>

definition isValid :: "QIconSet \<Rightarrow> cint \<Rightarrow> bool" where
  "isValid s index = (index <s vector_size (m_icons s))"

definition isValid_2d :: "QIconSet \<Rightarrow> cint \<Rightarrow> cint \<Rightarrow> bool" where
  "isValid_2d s col row = (toIndex s col row <s vector_size (m_icons s))"

text \<open>\<^verbatim>\<open>getIcon(int index)\<close> and \<^verbatim>\<open>getIcon(int col, int row)\<close>.\<close>

definition getIcon :: "build \<Rightarrow> QIconSet \<Rightarrow> cint \<Rightarrow> error + QIcon" where
  "getIcon b s index =
     (if b = Debug \<and> \<not> isValid s index then Inl AssertionFailed
      else if vector_size (m_icons s) \<le>s index then Inr (m_invalidIcon s)
      else vector_at (m_icons s) index)"

definition getIcon_2d :: "build \<Rightarrow> QIconSet \<Rightarrow> cint \<Rightarrow> cint \<Rightarrow> error + QIcon" where
  "getIcon_2d b s col row =
     (if b = Debug \<and> \<not> isValid_2d s col row then Inl AssertionFailed
      else vector_at (m_icons s) (toIndex s col row))"

definition getIconSize :: "QIconSet \<Rightarrow> QPoint" where
  "getIconSize s = m_iconSize s"

subsection \<open>Construction\<close>

text \<open>
  The inner loop of \<^verbatim>\<open>setup\<close>, \<^verbatim>\<open>for(auto x = 0; x < m_matrixSize.x(); ++x)\<close>, started
  at \<open>x\<close>: each round appends the icon copied at (\<open>m_iconSize.x() * x\<close>, \<open>pos_iy\<close>).
\<close>

function setup_x :: "QPixmap \<Rightarrow> QPoint \<Rightarrow> QPoint \<Rightarrow> cint \<Rightarrow> cint \<Rightarrow> QIcon list \<Rightarrow> QIcon list" where
  "setup_x iconset matrixSize iconSize pos_iy x icons =
     (if x <s QPoint_x matrixSize then
        setup_x iconset matrixSize iconSize pos_iy (x + 1)
          (icons @ [QIcon_copy iconset (QPoint_x iconSize * x) pos_iy
                      (QPoint_x iconSize) (QPoint_y iconSize)])
      else icons)"
  by pat_completeness auto
termination
proof (relation "measure (\<lambda>(iconset, matrixSize, iconSize, pos_iy, x, icons).
                   nat (sint (QPoint_x matrixSize) - sint x))")
  fix iconset :: QPixmap and matrixSize iconSize :: QPoint and pos_iy x :: cint
    and icons :: "QIcon list"
  assume lt: "x <s QPoint_x matrixSize"
  have "sint x < sint (QPoint_x matrixSize)"
    using lt by (simp add: word_sless_alt)
  moreover have "sint (QPoint_x matrixSize) < 2 ^ 31" "- (2 ^ 31) \<le> sint x"
    using sint_lt [of "QPoint_x matrixSize"] sint_ge [of x] by simp_all
  ultimately have "sint (x + 1) = sint x + 1"
    by (simp add: sint_word_ariths signed_take_bit_int_eq_self)
  then show "((iconset, matrixSize, iconSize, pos_iy, x + 1,
                icons @ [QIcon_copy iconset (QPoint_x iconSize * x) pos_iy
                           (QPoint_x iconSize) (QPoint_y iconSize)]),
              (iconset, matrixSize, iconSize, pos_iy, x, icons))
             \<in> measure (\<lambda>(iconset, matrixSize, iconSize, pos_iy, x, icons).
                   nat (sint (QPoint_x matrixSize) - sint x))"
    using \<open>sint x < sint (QPoint_x matrixSize)\<close> by simp
qed simp

text \<open>
  The outer loop, \<^verbatim>\<open>for(auto y = 0; y < m_matrixSize.y(); ++y)\<close>, started at \<open>y\<close>:
  each round runs the inner loop from 0 with \<open>pos_iy = m_iconSize.y() * y\<close>.
\<close>

function setup_y :: "QPixmap \<Rightarrow> QPoint \<Rightarrow> QPoint \<Rightarrow> cint \<Rightarrow> QIcon list \<Rightarrow> QIcon list" where
  "setup_y iconset matrixSize iconSize y icons =
     (if y <s QPoint_y matrixSize then
        setup_y iconset matrixSize iconSize (y + 1)
          (setup_x iconset matrixSize iconSize (QPoint_y iconSize * y) 0 icons)
      else icons)"
  by pat_completeness auto
termination
proof (relation "measure (\<lambda>(iconset, matrixSize, iconSize, y, icons).
                   nat (sint (QPoint_y matrixSize) - sint y))")
  fix iconset :: QPixmap and matrixSize iconSize :: QPoint and y :: cint
    and icons :: "QIcon list"
  assume lt: "y <s QPoint_y matrixSize"
  have "sint y < sint (QPoint_y matrixSize)"
    using lt by (simp add: word_sless_alt)
  moreover have "sint (QPoint_y matrixSize) < 2 ^ 31" "- (2 ^ 31) \<le> sint y"
    using sint_lt [of "QPoint_y matrixSize"] sint_ge [of y] by simp_all
  ultimately have "sint (y + 1) = sint y + 1"
    by (simp add: sint_word_ariths signed_take_bit_int_eq_self)
  then show "((iconset, matrixSize, iconSize, y + 1,
                setup_x iconset matrixSize iconSize (QPoint_y iconSize * y) 0 icons),
              (iconset, matrixSize, iconSize, y, icons))
             \<in> measure (\<lambda>(iconset, matrixSize, iconSize, y, icons).
                   nat (sint (QPoint_y matrixSize) - sint y))"
    using \<open>sint y < sint (QPoint_y matrixSize)\<close> by simp
qed simp

text \<open>
  \<^verbatim>\<open>setup\<close>. Its text names the constructor's arguments \<^verbatim>\<open>iconSize\<close> and
  \<^verbatim>\<open>colRow\<close>; the constructor has stored them in \<^verbatim>\<open>m_iconSize\<close> and
  \<^verbatim>\<open>m_matrixSize\<close> before it calls \<^verbatim>\<open>setup\<close>, and the model reads them there.
  \<^verbatim>\<open>reserve(n)\<close> takes a \<^verbatim>\<open>size_t\<close>: a negative int product is converted to a count
  beyond \<^verbatim>\<open>max_size()\<close> and \<^verbatim>\<open>reserve\<close> throws.
\<close>

definition QIconSet_setup :: "build \<Rightarrow> QIconSet \<Rightarrow> error + QIconSet" where
  "QIconSet_setup b s =
     (if QPixmap_isNull (m_iconset s) then
        (if b = Debug then Inl AssertionFailed else Inr s)
      else
        (case (if QPoint_isNull (m_iconSize s) then
                 (case int_div (QPixmap_width (m_iconset s)) (QPoint_x (m_matrixSize s)) of
                    Inl e \<Rightarrow> Inl e
                  | Inr w \<Rightarrow>
                     (case int_div (QPixmap_height (m_iconset s)) (QPoint_y (m_matrixSize s)) of
                        Inl e \<Rightarrow> Inl e
                      | Inr h \<Rightarrow> Inr (s\<lparr>m_iconSize := QPoint w h\<rparr>)))
               else Inr s) of
           Inl e \<Rightarrow> Inl e
         | Inr s1 \<Rightarrow>
            (if QPoint_x (m_matrixSize s1) * QPoint_y (m_matrixSize s1) <s 0 then Inl LengthError
             else Inr (s1\<lparr>m_icons :=
                        setup_y (m_iconset s1) (m_matrixSize s1) (m_iconSize s1) 0 (m_icons s1)\<rparr>))))"

text \<open>
  The constructors. The first takes the image, the grid and the icon size; the second
  passes \<^verbatim>\<open>QPoint()\<close> for the icon size; the third and the fourth take a plain icon
  count and pass \<^verbatim>\<open>QPoint(count, 1)\<close> for the grid.
\<close>

definition QIconSet_ctor :: "build \<Rightarrow> QPixmap \<Rightarrow> QPoint \<Rightarrow> QPoint \<Rightarrow> error + QIconSet" where
  "QIconSet_ctor b path colRow iconSize =
     QIconSet_setup b \<lparr>m_iconset = path, m_icons = [], m_matrixSize = colRow, m_iconSize = iconSize,
              m_invalidIcon = QIcon_default\<rparr>"

definition QIconSet_auto :: "build \<Rightarrow> QPixmap \<Rightarrow> QPoint \<Rightarrow> error + QIconSet" where
  "QIconSet_auto b path colRow = QIconSet_ctor b path colRow QPoint_default"

definition QIconSet_count :: "build \<Rightarrow> QPixmap \<Rightarrow> cint \<Rightarrow> QPoint \<Rightarrow> error + QIconSet" where
  "QIconSet_count b path count iconSize = QIconSet_ctor b path (QPoint count 1) iconSize"

definition QIconSet_count_auto :: "build \<Rightarrow> QPixmap \<Rightarrow> cint \<Rightarrow> error + QIconSet" where
  "QIconSet_count_auto b path count = QIconSet_ctor b path (QPoint count 1) QPoint_default"


declare setup_x.simps [simp del] setup_y.simps [simp del]

section \<open>QSettingsContainer\<close>

text \<open>
  The container holds its group name and a \<^verbatim>\<open>QMap<T_Key, QVariant>\<close>. \<^verbatim>\<open>QVariant\<close> is
  Qt's; it is the type variable \<open>'v\<close>, and the two conversions the lookup makes, from the
  default of type \<open>T\<close> to a \<^verbatim>\<open>QVariant\<close> and \<^verbatim>\<open>QVariant::value<T>()\<close> back, are
  arguments of the lookup.
\<close>

record ('k, 'v) QSettingsContainer =
  m_group :: string
  m_data :: "'k \<rightharpoonup> 'v"

text \<open>\<^verbatim>\<open>QMap::contains(key)\<close> and \<^verbatim>\<open>QMap::value(key, defaultValue)\<close>.\<close>

definition QMap_contains :: "('k \<rightharpoonup> 'v) \<Rightarrow> 'k \<Rightarrow> bool" where
  "QMap_contains m key = (m key \<noteq> None)"

definition QMap_value :: "('k \<rightharpoonup> 'v) \<Rightarrow> 'k \<Rightarrow> 'v \<Rightarrow> 'v" where
  "QMap_value m key defaultValue = (case m key of None \<Rightarrow> defaultValue | Some v \<Rightarrow> v)"

text \<open>\<^verbatim>\<open>value<T>(index, defaultValue)\<close>, \<^verbatim>\<open>setValue(key, value)\<close> and \<^verbatim>\<open>contains(key)\<close>
  for the supported key types.\<close>

definition QSettingsContainer_value ::
  "('t \<Rightarrow> 'v) \<Rightarrow> ('v \<Rightarrow> 't) \<Rightarrow> ('k, 'v) QSettingsContainer \<Rightarrow> 'k \<Rightarrow> 't \<Rightarrow> 't" where
  "QSettingsContainer_value toVariant fromVariant c index defaultValue =
     (if \<not> QMap_contains (m_data c) index then defaultValue
      else fromVariant (QMap_value (m_data c) index (toVariant defaultValue)))"

definition QSettingsContainer_setValue ::
  "('k, 'v) QSettingsContainer \<Rightarrow> 'k \<Rightarrow> 'v \<Rightarrow> ('k, 'v) QSettingsContainer" where
  "QSettingsContainer_setValue c key v = c\<lparr>m_data := (m_data c)(key \<mapsto> v)\<rparr>"

definition QSettingsContainer_contains :: "('k, 'v) QSettingsContainer \<Rightarrow> 'k \<Rightarrow> bool" where
  "QSettingsContainer_contains c key = QMap_contains (m_data c) key"

section \<open>The icon table in closed form\<close>

text \<open>
  One row of icons, for the columns \<open>k\<close> up to \<open>n\<close>, and the rows \<open>k\<close> up to \<open>n\<close> of
  \<open>c\<close> icons each, as the two loops produce them.
\<close>

abbreviation grid_row :: "QPixmap \<Rightarrow> QPoint \<Rightarrow> cint \<Rightarrow> nat \<Rightarrow> nat \<Rightarrow> QIcon list" where
  "grid_row iconset iconSize pos_iy k n \<equiv>
     map (\<lambda>i. QIcon_copy iconset (QPoint_x iconSize * word_of_nat i) pos_iy
                 (QPoint_x iconSize) (QPoint_y iconSize)) [k..<n]"

abbreviation grid_rows :: "QPixmap \<Rightarrow> QPoint \<Rightarrow> nat \<Rightarrow> nat \<Rightarrow> nat \<Rightarrow> QIcon list" where
  "grid_rows iconset iconSize c k n \<equiv>
     concat (map (\<lambda>j. grid_row iconset iconSize (QPoint_y iconSize * word_of_nat j) 0 c) [k..<n])"

text \<open>
  The example of the specification's tests: a 90 by 40 sheet cut into 3 columns and 2
  rows of 30 by 20 icons.
\<close>

abbreviation sheet_90x40 :: QPixmap where
  "sheet_90x40 \<equiv> QPixmap ''iconset.png'' 90 40"

abbreviation iconset_3x2 :: QIconSet where
  "iconset_3x2 \<equiv>
     \<lparr>m_iconset = sheet_90x40,
      m_icons = [QIcon_copy sheet_90x40 0 0 30 20, QIcon_copy sheet_90x40 30 0 30 20,
                 QIcon_copy sheet_90x40 60 0 30 20, QIcon_copy sheet_90x40 0 20 30 20,
                 QIcon_copy sheet_90x40 30 20 30 20, QIcon_copy sheet_90x40 60 20 30 20],
      m_matrixSize = QPoint 3 2, m_iconSize = QPoint 30 20, m_invalidIcon = QIcon_default\<rparr>"

section \<open>Integer facts\<close>

lemma sint_succ: "(x::cint) <s b \<Longrightarrow> sint (x + 1) = sint x + 1"
proof -
  assume "x <s b"
  then have "sint x < sint b" by (simp add: word_sless_alt)
  moreover have "sint b < 2 ^ 31" "- (2 ^ 31) \<le> sint x"
    using sint_lt [of b] sint_ge [of x] by simp_all
  ultimately show ?thesis
    by (simp add: sint_word_ariths signed_take_bit_int_eq_self)
qed

lemma word_of_nat_sint: "0 \<le> sint (x::cint) \<Longrightarrow> word_of_nat (nat (sint x)) = x"
  by (simp add: of_nat_nat)

section \<open>What the loops of setup produce\<close>

lemma setup_x_eq:
  "0 \<le> sint x \<Longrightarrow>
   setup_x iconset matrixSize iconSize pos_iy x icons =
     icons @ grid_row iconset iconSize pos_iy (nat (sint x)) (nat (sint (QPoint_x matrixSize)))"
proof (induction iconset matrixSize iconSize pos_iy x icons rule: setup_x.induct)
  case (1 iconset matrixSize iconSize pos_iy x icons)
  show ?case
  proof (cases "x <s QPoint_x matrixSize")
    case True
    then have s: "sint (x + 1) = sint x + 1" by (rule sint_succ)
    have lt: "sint x < sint (QPoint_x matrixSize)" using True by (simp add: word_sless_alt)
    have n: "nat (sint x + 1) = Suc (nat (sint x))" using "1.prems" by simp
    have up: "[nat (sint x)..<nat (sint (QPoint_x matrixSize))] =
              nat (sint x) # [Suc (nat (sint x))..<nat (sint (QPoint_x matrixSize))]"
      using lt "1.prems" by (simp add: upt_conv_Cons)
    have "setup_x iconset matrixSize iconSize pos_iy x icons =
          setup_x iconset matrixSize iconSize pos_iy (x + 1)
            (icons @ [QIcon_copy iconset (QPoint_x iconSize * x) pos_iy
                        (QPoint_x iconSize) (QPoint_y iconSize)])"
      using True by (subst setup_x.simps) simp
    also have "\<dots> = (icons @ [QIcon_copy iconset (QPoint_x iconSize * x) pos_iy
                        (QPoint_x iconSize) (QPoint_y iconSize)]) @
                 grid_row iconset iconSize pos_iy (nat (sint (x + 1)))
                   (nat (sint (QPoint_x matrixSize)))"
      using "1.IH" [OF True] "1.prems" s by simp
    finally show ?thesis
      using "1.prems" by (simp add: s n up word_of_nat_sint)
  next
    case False
    then have "sint (QPoint_x matrixSize) \<le> sint x" by (simp add: word_sless_alt)
    then show ?thesis using False by (subst setup_x.simps) simp
  qed
qed

lemma setup_y_eq:
  "0 \<le> sint y \<Longrightarrow>
   setup_y iconset matrixSize iconSize y icons =
     icons @ grid_rows iconset iconSize (nat (sint (QPoint_x matrixSize)))
               (nat (sint y)) (nat (sint (QPoint_y matrixSize)))"
proof (induction iconset matrixSize iconSize y icons rule: setup_y.induct)
  case (1 iconset matrixSize iconSize y icons)
  show ?case
  proof (cases "y <s QPoint_y matrixSize")
    case True
    then have s: "sint (y + 1) = sint y + 1" by (rule sint_succ)
    have lt: "sint y < sint (QPoint_y matrixSize)" using True by (simp add: word_sless_alt)
    have n: "nat (sint y + 1) = Suc (nat (sint y))" using "1.prems" by simp
    have up: "[nat (sint y)..<nat (sint (QPoint_y matrixSize))] =
              nat (sint y) # [Suc (nat (sint y))..<nat (sint (QPoint_y matrixSize))]"
      using lt "1.prems" by (simp add: upt_conv_Cons)
    have "setup_y iconset matrixSize iconSize y icons =
          setup_y iconset matrixSize iconSize (y + 1)
            (setup_x iconset matrixSize iconSize (QPoint_y iconSize * y) 0 icons)"
      using True by (subst setup_y.simps) simp
    also have "\<dots> = setup_x iconset matrixSize iconSize (QPoint_y iconSize * y) 0 icons @
                 grid_rows iconset iconSize (nat (sint (QPoint_x matrixSize)))
                   (nat (sint (y + 1))) (nat (sint (QPoint_y matrixSize)))"
      using "1.IH" [OF True] "1.prems" s by simp
    finally have e: "setup_y iconset matrixSize iconSize y icons =
                 setup_x iconset matrixSize iconSize (QPoint_y iconSize * y) 0 icons @
                 grid_rows iconset iconSize (nat (sint (QPoint_x matrixSize)))
                   (nat (sint (y + 1))) (nat (sint (QPoint_y matrixSize)))" .
    have x0: "setup_x iconset matrixSize iconSize (QPoint_y iconSize * y) 0 icons =
              icons @ grid_row iconset iconSize (QPoint_y iconSize * y) 0
                        (nat (sint (QPoint_x matrixSize)))"
      using setup_x_eq [of 0 iconset matrixSize iconSize "QPoint_y iconSize * y" icons] by simp
    have w: "word_of_nat (nat (sint y)) = y" using "1.prems" by (rule word_of_nat_sint)
    show ?thesis
      unfolding e x0 s n up by (simp add: w)
  next
    case False
    then have "sint (QPoint_y matrixSize) \<le> sint y" by (simp add: word_sless_alt)
    then show ?thesis using False by (subst setup_y.simps) simp
  qed
qed

lemma length_grid_rows: "length (grid_rows iconset iconSize c k n) = c * (n - k)"
  by (simp add: length_concat comp_def sum_list_triv)

lemma nth_grid_rows:
  "i < c * n \<Longrightarrow>
   grid_rows iconset iconSize c 0 n ! i =
     QIcon_copy iconset (QPoint_x iconSize * word_of_nat (i mod c))
       (QPoint_y iconSize * word_of_nat (i div c)) (QPoint_x iconSize) (QPoint_y iconSize)"
proof (induction n)
  case 0
  then show ?case by simp
next
  case (Suc n)
  have c: "0 < c" using Suc.prems by (cases c) simp_all
  show ?case
  proof (cases "i < c * n")
    case True
    then show ?thesis
      using Suc.IH by (simp add: nth_append length_grid_rows)
  next
    case False
    then have ge: "c * n \<le> i" by simp
    have lt: "i - c * n < c" using Suc.prems ge by simp
    have i: "i = (i - c * n) + n * c" using ge by (simp add: mult.commute)
    have d: "i div c = n"
      by (subst i) (use lt c in simp)
    have m: "i mod c = i - c * n"
      by (subst i) (use lt in simp)
    show ?thesis
      using False lt by (simp add: nth_append length_grid_rows d m)
  qed
qed

section \<open>What the constructor returns\<close>

lemma sint_mult_fits:
  "0 \<le> sint (a::cint) \<Longrightarrow> 0 \<le> sint (b::cint) \<Longrightarrow> sint a * sint b < 2 ^ 31 \<Longrightarrow>
   sint (a * b) = sint a * sint b"
proof -
  assume a: "0 \<le> sint a" and b: "0 \<le> sint b" and f: "sint a * sint b < 2 ^ 31"
  have "0 \<le> sint a * sint b" using a b by simp
  then have "- (2 ^ 31) \<le> sint a * sint b" by simp
  then show ?thesis using f
    by (simp add: sint_word_ariths signed_take_bit_int_eq_self)
qed

lemma sint_word_of_nat: "n < 2 ^ 31 \<Longrightarrow> sint (word_of_nat n :: cint) = int n"
proof -
  assume n: "n < 2 ^ 31"
  have "sint (word_of_nat n :: cint) = signed_take_bit 31 (int n)"
    using sint_sbintrunc' [of "int n", where 'a = 32] by simp
  also have "\<dots> = int n"
    using n by (intro signed_take_bit_int_eq_self) simp_all
  finally show ?thesis .
qed

lemma ctor_null:
  "QPixmap_isNull img \<Longrightarrow>
   QIconSet_ctor b img colRow iconSize =
     (if b = Debug then Inl AssertionFailed
      else Inr \<lparr>m_iconset = img, m_icons = [], m_matrixSize = colRow, m_iconSize = iconSize,
                m_invalidIcon = QIcon_default\<rparr>)"
  by (simp add: QIconSet_ctor_def QIconSet_setup_def)

lemma ctor_explicit:
  "\<not> QPixmap_isNull img \<Longrightarrow> \<not> QPoint_isNull iconSize \<Longrightarrow>
   QIconSet_ctor b img colRow iconSize =
     (if QPoint_x colRow * QPoint_y colRow <s 0 then Inl LengthError
      else Inr \<lparr>m_iconset = img,
                m_icons = grid_rows img iconSize (nat (sint (QPoint_x colRow))) 0
                            (nat (sint (QPoint_y colRow))),
                m_matrixSize = colRow, m_iconSize = iconSize,
                m_invalidIcon = QIcon_default\<rparr>)"
  by (simp add: QIconSet_ctor_def QIconSet_setup_def setup_y_eq)

lemma ctor_auto:
  "\<not> QPixmap_isNull img \<Longrightarrow> QPoint_isNull iconSize \<Longrightarrow>
   QIconSet_ctor b img colRow iconSize =
     (if QPoint_x colRow = 0 \<or> QPoint_y colRow = 0 then Inl DivisionByZero
      else if QPoint_x colRow * QPoint_y colRow <s 0 then Inl LengthError
      else Inr \<lparr>m_iconset = img,
                m_icons = grid_rows img
                   (QPoint (word_of_int (sint (QPixmap_width img) sdiv sint (QPoint_x colRow)))
                           (word_of_int (sint (QPixmap_height img) sdiv sint (QPoint_y colRow))))
                   (nat (sint (QPoint_x colRow))) 0 (nat (sint (QPoint_y colRow))),
                m_matrixSize = colRow,
                m_iconSize =
                   QPoint (word_of_int (sint (QPixmap_width img) sdiv sint (QPoint_x colRow)))
                          (word_of_int (sint (QPixmap_height img) sdiv sint (QPoint_y colRow))),
                m_invalidIcon = QIcon_default\<rparr>)"
  by (simp add: QIconSet_ctor_def QIconSet_setup_def int_div_def setup_y_eq)

lemma ctor_fields:
  assumes "\<not> QPixmap_isNull img" and "QIconSet_ctor b img colRow iconSize = Inr s"
  shows "m_iconset s = img" and "m_matrixSize s = colRow" and "m_invalidIcon s = QIcon_default"
    and "m_icons s = grid_rows img (m_iconSize s) (nat (sint (QPoint_x colRow))) 0
                       (nat (sint (QPoint_y colRow)))"
  using assms
  by (cases "QPoint_isNull iconSize"; auto simp: ctor_auto ctor_explicit split: if_splits)+

lemma ctor_length:
  assumes "\<not> QPixmap_isNull img" and "QIconSet_ctor b img colRow iconSize = Inr s"
  shows "length (m_icons s) = nat (sint (QPoint_x colRow)) * nat (sint (QPoint_y colRow))"
  using ctor_fields(4) [OF assms] by (simp add: length_grid_rows)

lemma ctor_size:
  assumes "\<not> QPixmap_isNull img" and "QIconSet_ctor b img (QPoint columns rows) iconSize = Inr s"
    and "0 <s columns" and "0 <s rows" and "sint columns * sint rows < 2 ^ 31"
  shows "sint (vector_size (m_icons s)) = sint columns * sint rows"
proof -
  have c: "0 < sint columns" and r: "0 < sint rows"
    using assms(3,4) by (simp_all add: word_sless_alt)
  have "length (m_icons s) = nat (sint columns) * nat (sint rows)"
    using ctor_length [OF assms(1,2)] by simp
  also have "\<dots> = nat (sint columns * sint rows)"
    using c r by (simp add: nat_mult_distrib)
  finally have l: "length (m_icons s) = nat (sint columns * sint rows)" .
  then have "length (m_icons s) < 2 ^ 31"
    using assms(5) c r by (simp add: nat_less_iff)
  then have "sint (vector_size (m_icons s)) = int (length (m_icons s))"
    by (simp only: vector_size_def sint_word_of_nat)
  then show ?thesis
    using l c r by simp
qed

lemma fits_not_negative:
  assumes "0 <s (columns::cint)" and "0 <s (rows::cint)" and "sint columns * sint rows < 2 ^ 31"
  shows "\<not> columns * rows <s 0"
proof -
  have c: "0 < sint columns" and r: "0 < sint rows"
    using assms(1,2) by (simp_all add: word_sless_alt)
  have "sint (columns * rows) = sint columns * sint rows"
    using c r assms(3) by (simp add: sint_mult_fits)
  moreover have "0 < sint columns * sint rows" using c r by (rule mult_pos_pos)
  ultimately show ?thesis by (simp add: word_sless_alt)
qed

lemma ctor_3x2: "QIconSet_ctor b sheet_90x40 (QPoint 3 2) QPoint_default = Inr iconset_3x2"
  by (simp add: QIconSet_ctor_def QIconSet_setup_def QPixmap_isNull_def QPoint_isNull_def
        QPoint_default_def int_div_def signed_divide_int_def word_sless_alt word_sle_eq
        setup_y.simps setup_x.simps)

lemma ctor_returns:
  assumes "\<not> QPixmap_isNull img" and "0 <s columns" and "0 <s rows"
    and "sint columns * sint rows < 2 ^ 31"
  shows "\<exists>s. QIconSet_ctor b img (QPoint columns rows) iconSize = Inr s"
proof -
  have n: "\<not> columns * rows <s 0" using assms(2-4) by (rule fits_not_negative)
  have z: "columns \<noteq> 0" "rows \<noteq> 0" using assms(2,3) by auto
  show ?thesis
    by (cases "QPoint_isNull iconSize") (simp_all add: ctor_auto ctor_explicit assms(1) n z)
qed

lemma sint_trunc_div:
  assumes "0 \<le> sint (w::cint)" and "0 < sint (c::cint)"
  shows "sint (word_of_int (sint w sdiv sint c) :: cint) = sint w div sint c"
proof -
  have e: "sint w sdiv sint c = sint w div sint c"
    using assms by (simp add: signed_divide_int_def sgn_if)
  have "0 \<le> sint w div sint c"
    using assms by (simp add: pos_imp_zdiv_nonneg_iff)
  moreover have "sint w div sint c \<le> sint w"
    using assms(1) by (cases "sint w = 0") (simp_all add: int_div_le_self)
  moreover have "sint w < 2 ^ 31"
    using sint_lt [of w] by simp
  ultimately have "signed_take_bit 31 (sint w div sint c) = sint w div sint c"
    by (intro signed_take_bit_int_eq_self) simp_all
  then show ?thesis
    by (simp add: e sint_sbintrunc')
qed

lemma ctor_zero_grid:
  assumes "\<not> QPixmap_isNull img" and "\<not> QPoint_isNull iconSize" and "columns = 0 \<or> rows = 0"
  shows "QIconSet_ctor b img (QPoint columns rows) iconSize =
           Inr \<lparr>m_iconset = img, m_icons = [], m_matrixSize = QPoint columns rows,
                 m_iconSize = iconSize, m_invalidIcon = QIcon_default\<rparr>"
  using assms by (auto simp: ctor_explicit)

section \<open>Indices inside the grid\<close>

lemma sint_toIndex_wrap:
  "sint (row * columns + col :: cint) = signed_take_bit 31 (sint row * sint columns + sint col)"
proof -
  have "row * columns + col = (word_of_int (sint row * sint columns + sint col) :: cint)"
    by simp
  then have "sint (row * columns + col) =
             sint (word_of_int (sint row * sint columns + sint col) :: cint)"
    by (rule arg_cong)
  then show ?thesis
    by (simp only: sint_sbintrunc') simp
qed

lemma sint_toIndex_exact:
  assumes "- (2 ^ 31) \<le> sint row * sint columns + sint col"
    and "sint row * sint columns + sint col < 2 ^ 31"
  shows "sint (row * columns + col :: cint) = sint row * sint columns + sint col"
  using assms by (simp add: sint_toIndex_wrap signed_take_bit_int_eq_self)

lemma index_in_grid:
  fixes c r cl rw :: int
  assumes "0 \<le> cl" and "cl < c" and "0 \<le> rw" and "rw < r"
  shows "0 \<le> rw * c + cl" and "rw * c + cl < c * r"
proof -
  have c: "0 < c" using assms(1,2) by simp
  show "0 \<le> rw * c + cl" using assms(1,3) c by simp
  have "rw + 1 \<le> r" using assms(4) by simp
  then have "(rw + 1) * c \<le> r * c" using c by (intro mult_right_mono) simp_all
  then show "rw * c + cl < c * r" using assms(2) by (simp add: algebra_simps)
qed

lemma vector_size_sint:
  "length v < 2 ^ 31 \<Longrightarrow> sint (vector_size v) = int (length v)"
  by (simp only: vector_size_def sint_word_of_nat)

lemma ctor_size_length:
  assumes "\<not> QPixmap_isNull img" and "QIconSet_ctor b img (QPoint columns rows) iconSize = Inr s"
    and "0 <s columns" and "0 <s rows" and "sint columns * sint rows < 2 ^ 31"
  shows "int (length (m_icons s)) = sint columns * sint rows"
proof -
  have c: "0 < sint columns" and r: "0 < sint rows"
    using assms(3,4) by (simp_all add: word_sless_alt)
  have "length (m_icons s) = nat (sint columns) * nat (sint rows)"
    using ctor_length [OF assms(1,2)] by simp
  then show ?thesis using c r by simp
qed

lemma ctor_nth_not_invalid:
  assumes "\<not> QPixmap_isNull img" and "QIconSet_ctor b img colRow iconSize = Inr s"
    and "i < length (m_icons s)"
  shows "m_icons s ! i \<noteq> m_invalidIcon s"
proof -
  have l: "length (m_icons s) = nat (sint (QPoint_x colRow)) * nat (sint (QPoint_y colRow))"
    using assms(1,2) by (rule ctor_length)
  have "m_icons s ! i =
          grid_rows img (m_iconSize s) (nat (sint (QPoint_x colRow))) 0
            (nat (sint (QPoint_y colRow))) ! i"
    using ctor_fields(4) [OF assms(1,2)] by simp
  also have "\<dots> = QIcon_copy img
       (QPoint_x (m_iconSize s) * word_of_nat (i mod nat (sint (QPoint_x colRow))))
       (QPoint_y (m_iconSize s) * word_of_nat (i div nat (sint (QPoint_x colRow))))
       (QPoint_x (m_iconSize s)) (QPoint_y (m_iconSize s))"
    using assms(3) l by (simp add: nth_grid_rows)
  finally show ?thesis
    using ctor_fields(3) [OF assms(1,2)] by simp
qed

lemma cell_index:
  fixes c r cl rw :: nat
  assumes "cl < c" and "rw < r"
  shows "rw * c + cl < c * r" and "(rw * c + cl) div c = rw" and "(rw * c + cl) mod c = cl"
proof -
  have "Suc rw \<le> r" using assms(2) by (rule Suc_leI)
  then have "Suc rw * c \<le> r * c" by (rule mult_le_mono1)
  then show "rw * c + cl < c * r" using assms(1) by (simp add: mult.commute)
  show "(rw * c + cl) div c = rw" "(rw * c + cl) mod c = cl"
    using assms(1) by simp_all
qed

lemma ctor_nth_cell:
  assumes "\<not> QPixmap_isNull img"
    and "QIconSet_ctor b img (QPoint columns rows) iconSize = Inr s"
    and "0 \<le> sint col" and "sint col < sint columns"
    and "0 \<le> sint row" and "sint row < sint rows"
  shows "m_icons s ! (nat (sint row) * nat (sint columns) + nat (sint col)) =
           QIcon_copy img (QPoint_x (m_iconSize s) * col) (QPoint_y (m_iconSize s) * row)
             (QPoint_x (m_iconSize s)) (QPoint_y (m_iconSize s))"
proof -
  let ?c = "nat (sint columns)" and ?r = "nat (sint rows)"
  let ?i = "nat (sint row) * ?c + nat (sint col)"
  have cl: "nat (sint col) < ?c" using assms(3,4) by simp
  have rw: "nat (sint row) < ?r" using assms(5,6) by simp
  have lt: "?i < ?c * ?r" and d: "?i div ?c = nat (sint row)" and m: "?i mod ?c = nat (sint col)"
    using cell_index [OF cl rw] by blast+
  have "m_icons s ! ?i = grid_rows img (m_iconSize s) ?c 0 ?r ! ?i"
    using ctor_fields(4) [OF assms(1,2)] by simp
  also have "\<dots> = QIcon_copy img (QPoint_x (m_iconSize s) * word_of_nat (?i mod ?c))
                      (QPoint_y (m_iconSize s) * word_of_nat (?i div ?c))
                      (QPoint_x (m_iconSize s)) (QPoint_y (m_iconSize s))"
    using lt by (rule nth_grid_rows)
  finally show ?thesis
    using assms(3,5) by (simp only: d m word_of_nat_sint)
qed

section \<open>Lookup by coordinates beyond the table\<close>

text \<open>
  C1. The claim: when the computed index \<open>row * columns + col\<close> is not below the table
  length, \<open>getIcon(col, row)\<close> returns the invalid icon, as \<open>getIcon(index)\<close> does. The
  code does not: on the 3 by 2 example \<open>getIcon(0, 2)\<close> computes the index 6 and reads
  \<open>m_icons[6]\<close> of a vector of 6 icons in a release build, and fails its assertion in a
  debug build, while \<open>getIcon(6)\<close> returns the invalid icon.
\<close>

theorem getIcon_2d_beyond_table:
  "QIconSet_ctor Release sheet_90x40 (QPoint 3 2) QPoint_default = Inr iconset_3x2
   \<and> toIndex iconset_3x2 0 2 = 6
   \<and> vector_size (m_icons iconset_3x2) = 6
   \<and> getIcon_2d Release iconset_3x2 0 2 = Inl OutOfBounds
   \<and> getIcon_2d Debug iconset_3x2 0 2 = Inl AssertionFailed
   \<and> getIcon Release iconset_3x2 6 = Inr (m_invalidIcon iconset_3x2)"
  by (simp add: QIconSet_ctor_def QIconSet_setup_def QPixmap_isNull_def QPoint_isNull_def
        QPoint_default_def int_div_def signed_divide_int_def word_sless_alt word_sle_eq
        setup_y.simps setup_x.simps toIndex_def vector_size_def getIcon_2d_def getIcon_def
        isValid_2d_def isValid_def vector_at_def)

section \<open>The table the constructor builds\<close>

text \<open>
  C4. Built from a non-null image with a positive number of columns and of rows (their
  product an int), the table has \<open>columns * rows\<close> icons, and icon \<open>i\<close> is the copy of
  the rectangle of the icon size whose origin is
  (\<open>(i mod columns) * cellWidth\<close>, \<open>(i div columns) * cellHeight\<close>): the rows come one
  after the other, the columns of a row from left to right. The products are the int
  products of the code. No query returns a changed object, so the table stays as built.
\<close>

theorem icon_table_row_major:
  assumes "\<not> QPixmap_isNull img" and "0 <s columns" and "0 <s rows"
    and "sint columns * sint rows < 2 ^ 31"
  shows "\<exists>s. QIconSet_ctor b img (QPoint columns rows) iconSize = Inr s
           \<and> int (length (m_icons s)) = sint columns * sint rows
           \<and> (\<forall>i < length (m_icons s).
                 m_icons s ! i =
                   QIcon_copy img
                     (QPoint_x (m_iconSize s) * word_of_nat (i mod nat (sint columns)))
                     (QPoint_y (m_iconSize s) * word_of_nat (i div nat (sint columns)))
                     (QPoint_x (m_iconSize s)) (QPoint_y (m_iconSize s)))"
proof -
  obtain s where s: "QIconSet_ctor b img (QPoint columns rows) iconSize = Inr s"
    using ctor_returns [OF assms] by blast
  have c: "0 < sint columns" and r: "0 < sint rows"
    using assms(2,3) by (simp_all add: word_sless_alt)
  have l: "length (m_icons s) = nat (sint columns) * nat (sint rows)"
    using ctor_length [OF assms(1) s] by simp
  then have "int (length (m_icons s)) = sint columns * sint rows"
    using c r by simp
  moreover have "m_icons s ! i =
                   QIcon_copy img
                     (QPoint_x (m_iconSize s) * word_of_nat (i mod nat (sint columns)))
                     (QPoint_y (m_iconSize s) * word_of_nat (i div nat (sint columns)))
                     (QPoint_x (m_iconSize s)) (QPoint_y (m_iconSize s))"
    if "i < length (m_icons s)" for i
    using that l ctor_fields(4) [OF assms(1) s] by (simp add: nth_grid_rows)
  ultimately show ?thesis using s by blast
qed

theorem icon_table_row_major_witness:
  "\<not> QPixmap_isNull sheet_90x40 \<and> (0::cint) <s 3 \<and> (0::cint) <s 2
   \<and> sint (3::cint) * sint (2::cint) < 2 ^ 31
   \<and> (\<exists>s. QIconSet_ctor Release sheet_90x40 (QPoint 3 2) QPoint_default = Inr s
           \<and> int (length (m_icons s)) = 6
           \<and> m_icons s ! 4 = QIcon_copy sheet_90x40 30 20 30 20)"
proof -
  have h: "\<not> QPixmap_isNull sheet_90x40" "(0::cint) <s 3" "(0::cint) <s 2"
    "sint (3::cint) * sint (2::cint) < 2 ^ 31"
    by (simp_all add: QPixmap_isNull_def word_sle_eq word_sless_alt)
  obtain s where s: "QIconSet_ctor Release sheet_90x40 (QPoint 3 2) QPoint_default = Inr s"
    and l: "int (length (m_icons s)) = sint (3::cint) * sint (2::cint)"
    and e: "\<forall>i < length (m_icons s).
                 m_icons s ! i =
                   QIcon_copy sheet_90x40
                     (QPoint_x (m_iconSize s) * word_of_nat (i mod nat (sint (3::cint))))
                     (QPoint_y (m_iconSize s) * word_of_nat (i div nat (sint (3::cint))))
                     (QPoint_x (m_iconSize s)) (QPoint_y (m_iconSize s))"
    using icon_table_row_major [OF h, of Release QPoint_default] by blast
  have "s = iconset_3x2"
    using s by (simp add: ctor_3x2)
  then have sz: "m_iconSize s = QPoint 30 20"
    by simp
  have "m_icons s ! 4 = QIcon_copy sheet_90x40 30 20 30 20"
    using e [rule_format, of 4] l by (simp add: sz)
  then show ?thesis using h s l by auto
qed

section \<open>The automatic icon size\<close>

text \<open>
  C5. Given \<^verbatim>\<open>QPoint()\<close> for the icon size, a non-null image and a positive number of
  columns and of rows (their product an int), the constructor returns a set whose icon
  size is (\<open>width div columns\<close>, \<open>height div rows\<close>), the quotients rounded down. A 91 by
  41 sheet with 3 columns and 2 rows gives 30 by 20, as a 90 by 40 sheet does.
\<close>

theorem auto_size_truncates:
  assumes "\<not> QPixmap_isNull img" and "0 <s columns" and "0 <s rows"
    and "sint columns * sint rows < 2 ^ 31"
  shows "\<exists>s. QIconSet_auto b img (QPoint columns rows) = Inr s
           \<and> sint (QPoint_x (getIconSize s)) = sint (QPixmap_width img) div sint columns
           \<and> sint (QPoint_y (getIconSize s)) = sint (QPixmap_height img) div sint rows"
proof -
  have n: "\<not> columns * rows <s 0" using assms(2-4) by (rule fits_not_negative)
  have z: "columns \<noteq> 0" "rows \<noteq> 0" using assms(2,3) by auto
  have c: "0 < sint columns" and r: "0 < sint rows"
    using assms(2,3) by (simp_all add: word_sless_alt)
  have w: "0 \<le> sint (QPixmap_width img)" and h: "0 \<le> sint (QPixmap_height img)"
    using assms(1) by (simp_all add: QPixmap_isNull_def word_sle_eq)
  show ?thesis
    by (simp add: QIconSet_auto_def QPoint_default_def ctor_auto assms(1) QPoint_isNull_def
          n z getIconSize_def sint_trunc_div w h c r)
qed

theorem auto_size_truncates_witness:
  "\<not> QPixmap_isNull (QPixmap ''iconset.png'' 91 41) \<and> (0::cint) <s 3 \<and> (0::cint) <s 2
   \<and> sint (3::cint) * sint (2::cint) < 2 ^ 31
   \<and> (\<exists>s. QIconSet_auto Release (QPixmap ''iconset.png'' 91 41) (QPoint 3 2) = Inr s
           \<and> sint (QPoint_x (getIconSize s)) = 30 \<and> sint (QPoint_y (getIconSize s)) = 20)"
proof -
  have h: "\<not> QPixmap_isNull (QPixmap ''iconset.png'' 91 41)" "(0::cint) <s 3" "(0::cint) <s 2"
    "sint (3::cint) * sint (2::cint) < 2 ^ 31"
    by (simp_all add: QPixmap_isNull_def word_sle_eq word_sless_alt)
  show ?thesis
    using h auto_size_truncates [OF h, of Release] by simp
qed

lemma auto_size_examples:
  "map_sum id getIconSize (QIconSet_auto b (QPixmap ''iconset.png'' 90 40) (QPoint 3 2))
     = Inr (QPoint 30 20)
   \<and> map_sum id getIconSize (QIconSet_auto b (QPixmap ''iconset.png'' 91 41) (QPoint 3 2))
     = Inr (QPoint 30 20)"
  by (simp add: QIconSet_auto_def QPoint_default_def ctor_auto QPoint_isNull_def
        QPixmap_isNull_def getIconSize_def signed_divide_int_def word_sless_alt word_sle_eq)

section \<open>An image that failed to load\<close>

text \<open>
  C6. With a null image the constructor fails its assertion in a debug build; in a
  release build it returns a set with an empty table, and \<open>getIcon(index)\<close> on that set
  returns the invalid icon for every \<open>index \<ge> 0\<close>.
\<close>

theorem null_image_fails_soft:
  assumes "QPixmap_isNull img"
  shows "QIconSet_ctor Debug img colRow iconSize = Inl AssertionFailed
         \<and> (\<exists>s. QIconSet_ctor Release img colRow iconSize = Inr s \<and> m_icons s = []
                \<and> (\<forall>index. 0 \<le>s index \<longrightarrow> getIcon Release s index = Inr (m_invalidIcon s)))"
  using assms by (simp add: ctor_null getIcon_def vector_size_def)

theorem null_image_fails_soft_witness:
  "QPixmap_isNull (QPixmap ''missing.png'' 0 0)
   \<and> QIconSet_ctor Debug (QPixmap ''missing.png'' 0 0) (QPoint 3 2) (QPoint 30 20)
       = Inl AssertionFailed
   \<and> (\<exists>s. QIconSet_ctor Release (QPixmap ''missing.png'' 0 0) (QPoint 3 2) (QPoint 30 20) = Inr s
          \<and> m_icons s = [] \<and> getIcon Release s 0 = Inr (m_invalidIcon s)
          \<and> getIcon Release s 7 = Inr (m_invalidIcon s))"
proof -
  have h: "QPixmap_isNull (QPixmap ''missing.png'' 0 0)"
    by (simp add: QPixmap_isNull_def)
  obtain s where s: "QIconSet_ctor Release (QPixmap ''missing.png'' 0 0) (QPoint 3 2) (QPoint 30 20) = Inr s"
    and e: "m_icons s = []"
    and g: "\<forall>index. 0 \<le>s index \<longrightarrow> getIcon Release s index = Inr (m_invalidIcon s)"
    using null_image_fails_soft [OF h, of "QPoint 3 2" "QPoint 30 20"] by blast
  have "getIcon Release s 0 = Inr (m_invalidIcon s)" "getIcon Release s 7 = Inr (m_invalidIcon s)"
    using g by (simp_all add: word_sle_eq)
  then show ?thesis
    using h null_image_fails_soft [OF h, of "QPoint 3 2" "QPoint 30 20"] s e by auto
qed

section \<open>The constructors that take an icon count\<close>

text \<open>
  C8. For every image, count and icon size, the constructor taking a plain icon count
  returns what the constructor taking the grid returns for \<^verbatim>\<open>QPoint(count, 1)\<close>: the same
  error, or the same object, hence the same table, icon size and lookups. The same holds
  for the pair of constructors that compute the icon size.
\<close>

theorem count_is_single_row:
  "QIconSet_count b path count iconSize = QIconSet_ctor b path (QPoint count 1) iconSize
   \<and> QIconSet_count_auto b path count = QIconSet_auto b path (QPoint count 1)"
  by (simp add: QIconSet_count_def QIconSet_count_auto_def QIconSet_auto_def)

section \<open>Lookups in the settings container\<close>

text \<open>
  C9. \<open>value(key, default)\<close> is the stored value of \<open>key\<close>, converted to the type asked
  for, when the map holds \<open>key\<close>, and \<open>default\<close> otherwise; \<open>contains(key)\<close> tells whether
  the map holds \<open>key\<close>; after \<open>setValue(key, v)\<close> the container contains \<open>key\<close> and
  \<open>value\<close> reads \<open>v\<close> back.
\<close>

theorem settings_value_contains:
  "QSettingsContainer_value toVariant fromVariant c key d =
     (case m_data c key of Some v \<Rightarrow> fromVariant v | None \<Rightarrow> d)
   \<and> QSettingsContainer_contains c key = (key \<in> dom (m_data c))
   \<and> QSettingsContainer_contains (QSettingsContainer_setValue c key v) key
   \<and> QSettingsContainer_value toVariant fromVariant (QSettingsContainer_setValue c key v) key d
       = fromVariant v"
  by (auto simp: QSettingsContainer_value_def QSettingsContainer_contains_def
        QSettingsContainer_setValue_def QMap_contains_def QMap_value_def split: option.splits)

section \<open>Lookup by index\<close>

text \<open>
  C2, as the code has it by design. On a set built from a non-null image with a positive
  number of columns and of rows (their product an int), for every \<open>index \<ge> 0\<close>:
  \<open>isValid(index)\<close> holds exactly when \<open>index < columns * rows\<close>; a release build's
  \<open>getIcon(index)\<close> returns the invalid icon exactly when \<open>index \<ge> columns * rows\<close> and
  the stored icon otherwise; a debug build's \<open>getIcon(index)\<close> fails its assertion
  \<open>isValid(index)\<close> exactly when \<open>index \<ge> columns * rows\<close>, and returns the stored icon
  otherwise.
\<close>

theorem isValid_getIcon_linear:
  assumes "\<not> QPixmap_isNull img" and "0 <s columns" and "0 <s rows"
    and "sint columns * sint rows < 2 ^ 31"
    and "QIconSet_ctor b img (QPoint columns rows) iconSize = Inr s"
  shows "(0 \<le>s index \<longrightarrow>
            (isValid s index \<longleftrightarrow> sint index < sint columns * sint rows))
       \<and> (0 \<le>s index \<longrightarrow>
            (getIcon Release s index = Inr (m_invalidIcon s)
               \<longleftrightarrow> sint columns * sint rows \<le> sint index))
       \<and> (0 \<le>s index \<longrightarrow>
            (getIcon Debug s index = Inl AssertionFailed
               \<longleftrightarrow> sint columns * sint rows \<le> sint index))
       \<and> (0 \<le>s index \<and> sint index < sint columns * sint rows \<longrightarrow>
            getIcon b' s index = Inr (m_icons s ! nat (sint index)))"
proof -
  have l: "int (length (m_icons s)) = sint columns * sint rows"
    using assms(1,5,2,3,4) by (rule ctor_size_length)
  have z: "sint (vector_size (m_icons s)) = sint columns * sint rows"
    using assms(1,5,2,3,4) by (rule ctor_size)
  have v: "isValid s index \<longleftrightarrow> sint index < sint columns * sint rows"
    by (simp add: isValid_def word_sless_alt z)
  have inside: "getIcon b' s index = Inr (m_icons s ! nat (sint index))"
    if "0 \<le> sint index" and "sint index < sint columns * sint rows" for b'
    using that l by (simp add: getIcon_def v word_sle_eq z vector_at_def)
  have ne: "m_icons s ! nat (sint index) \<noteq> m_invalidIcon s"
    if "0 \<le> sint index" and "sint index < sint columns * sint rows"
    using that l by (intro ctor_nth_not_invalid [OF assms(1,5)]) simp
  have rel: "getIcon Release s index = Inr (m_invalidIcon s)
               \<longleftrightarrow> sint columns * sint rows \<le> sint index" if "0 \<le> sint index"
  proof (cases "sint index < sint columns * sint rows")
    case True
    then show ?thesis using inside [OF that True] ne [OF that True] by simp
  next
    case False
    then show ?thesis by (simp add: getIcon_def word_sle_eq z)
  qed
  have dbg: "getIcon Debug s index = Inl AssertionFailed
               \<longleftrightarrow> sint columns * sint rows \<le> sint index" if "0 \<le> sint index"
  proof (cases "sint index < sint columns * sint rows")
    case True
    then show ?thesis using inside [OF that True] by simp
  next
    case False
    then show ?thesis by (simp add: getIcon_def v)
  qed
  show ?thesis
    using v rel dbg inside by (simp add: word_sle_eq)
qed

theorem isValid_getIcon_linear_witness:
  "\<not> QPixmap_isNull sheet_90x40 \<and> (0::cint) <s 3 \<and> (0::cint) <s 2
   \<and> sint (3::cint) * sint (2::cint) < 2 ^ 31
   \<and> QIconSet_ctor Release sheet_90x40 (QPoint 3 2) QPoint_default = Inr iconset_3x2
   \<and> isValid iconset_3x2 5 \<and> \<not> isValid iconset_3x2 6
   \<and> getIcon Release iconset_3x2 6 = Inr QIcon_default
   \<and> getIcon Debug iconset_3x2 6 = Inl AssertionFailed
   \<and> getIcon Release iconset_3x2 5 = Inr (QIcon_copy sheet_90x40 60 20 30 20)"
proof -
  have h: "\<not> QPixmap_isNull sheet_90x40" "(0::cint) <s 3" "(0::cint) <s 2"
    "sint (3::cint) * sint (2::cint) < 2 ^ 31"
    by (simp_all add: QPixmap_isNull_def word_sle_eq word_sless_alt)
  note t = isValid_getIcon_linear [OF h ctor_3x2 [of Release]]
  show ?thesis
    using h ctor_3x2 [of Release] t [of 5 Release] t [of 6 Release]
    by (simp add: word_sle_eq)
qed

text \<open>
  The claim as it was stated fails on the 3 by 2 example in a debug build: index 6 is
  \<open>columns * rows\<close>, and \<open>getIcon(6)\<close> fails the assertion \<open>isValid(6)\<close> instead of
  returning the invalid icon.
\<close>

theorem getIcon_debug_beyond_table_counterexample:
  "QIconSet_ctor Debug sheet_90x40 (QPoint 3 2) QPoint_default = Inr iconset_3x2
   \<and> vector_size (m_icons iconset_3x2) = 6
   \<and> \<not> isValid iconset_3x2 6
   \<and> getIcon Debug iconset_3x2 6 = Inl AssertionFailed
   \<and> getIcon Debug iconset_3x2 6 \<noteq> Inr (m_invalidIcon iconset_3x2)"
  by (simp add: ctor_3x2 isValid_def getIcon_def vector_size_def)

text \<open>
  A defect of the code, apart from the statement above: neither \<open>isValid(index)\<close> nor
  \<open>getIcon(index)\<close> looks at the sign of the index. On the 3 by 2 example \<open>isValid(-1)\<close>
  holds although no icon is at \<open>-1\<close>, and \<open>getIcon(-1)\<close> passes its assertion and reads
  \<open>m_icons[-1]\<close> in both builds.
\<close>

lemma negative_index_defect:
  "isValid iconset_3x2 (- 1)
   \<and> getIcon Release iconset_3x2 (- 1) = Inl OutOfBounds
   \<and> getIcon Debug iconset_3x2 (- 1) = Inl OutOfBounds"
  by (simp add: isValid_def getIcon_def vector_size_def vector_at_def
        word_sless_alt word_sle_eq)

section \<open>Index and coordinates name the same icon\<close>

text \<open>
  C3. On a set built from a non-null image with \<open>columns * rows\<close> an int, for every
  \<open>0 \<le> col < columns\<close> and \<open>0 \<le> row < rows\<close>, \<open>getIcon(row * columns + col)\<close> and
  \<open>getIcon(col, row)\<close> return the same icon, the one stored at \<open>row * columns + col\<close>,
  which is the copy the loops took at (\<open>col * cellWidth\<close>, \<open>row * cellHeight\<close>).
\<close>

theorem getIcon_index_coordinate_agree:
  assumes "\<not> QPixmap_isNull img" and "sint columns * sint rows < 2 ^ 31"
    and "QIconSet_ctor b img (QPoint columns rows) iconSize = Inr s"
    and "0 \<le>s col" and "col <s columns" and "0 \<le>s row" and "row <s rows"
  shows "getIcon b' s (row * columns + col) = getIcon_2d b' s col row
       \<and> getIcon_2d b' s col row =
           Inr (m_icons s ! (nat (sint row) * nat (sint columns) + nat (sint col)))
       \<and> getIcon_2d b' s col row =
           Inr (QIcon_copy img (QPoint_x (m_iconSize s) * col) (QPoint_y (m_iconSize s) * row)
                  (QPoint_x (m_iconSize s)) (QPoint_y (m_iconSize s)))"
proof -
  have cl: "0 \<le> sint col" "sint col < sint columns" and rw: "0 \<le> sint row" "sint row < sint rows"
    using assms(4-7) by (simp_all add: word_sle_eq word_sless_alt)
  have pc: "0 <s columns" and pr: "0 <s rows"
    using cl rw by (simp_all add: word_sless_alt)
  have lo: "0 \<le> sint row * sint columns + sint col"
    and hi: "sint row * sint columns + sint col < sint columns * sint rows"
    using index_in_grid [OF cl rw] by simp_all
  have e: "sint (row * columns + col) = sint row * sint columns + sint col"
    using lo hi assms(2) by (intro sint_toIndex_exact) simp_all
  have m: "m_matrixSize s = QPoint columns rows"
    using ctor_fields(2) [OF assms(1,3)] .
  have t: "toIndex s col row = row * columns + col"
    by (simp add: toIndex_def m)
  have l: "int (length (m_icons s)) = sint columns * sint rows"
    using assms(1,3) pc pr assms(2) by (rule ctor_size_length)
  have z: "sint (vector_size (m_icons s)) = sint columns * sint rows"
    using assms(1,3) pc pr assms(2) by (rule ctor_size)
  have n: "nat (sint row * sint columns + sint col) =
           nat (sint row) * nat (sint columns) + nat (sint col)"
    using cl rw by (simp add: nat_add_distrib nat_mult_distrib)
  have at: "vector_at (m_icons s) (row * columns + col) =
            Inr (m_icons s ! (nat (sint row) * nat (sint columns) + nat (sint col)))"
  proof -
    have "nat (sint row * sint columns + sint col) < length (m_icons s)"
      using lo hi l by linarith
    then show ?thesis
      using lo by (simp add: vector_at_def word_sle_eq e n)
  qed
  have g1: "getIcon b' s (row * columns + col) = vector_at (m_icons s) (row * columns + col)"
    using hi by (simp add: getIcon_def isValid_def word_sless_alt word_sle_eq z e)
  have g2: "getIcon_2d b' s col row = vector_at (m_icons s) (row * columns + col)"
    using hi by (simp add: getIcon_2d_def isValid_2d_def t word_sless_alt z e)
  have cell: "m_icons s ! (nat (sint row) * nat (sint columns) + nat (sint col)) =
           QIcon_copy img (QPoint_x (m_iconSize s) * col) (QPoint_y (m_iconSize s) * row)
             (QPoint_x (m_iconSize s)) (QPoint_y (m_iconSize s))"
    using assms(1,3) cl rw by (rule ctor_nth_cell)
  show ?thesis
    by (simp add: g1 g2 at cell)
qed

theorem getIcon_index_coordinate_agree_witness:
  "\<not> QPixmap_isNull sheet_90x40 \<and> sint (3::cint) * sint (2::cint) < 2 ^ 31
   \<and> QIconSet_ctor Release sheet_90x40 (QPoint 3 2) QPoint_default = Inr iconset_3x2
   \<and> (0::cint) \<le>s 1 \<and> (1::cint) <s 3 \<and> (0::cint) \<le>s 1 \<and> (1::cint) <s 2
   \<and> getIcon Release iconset_3x2 4 = getIcon_2d Release iconset_3x2 1 1
   \<and> getIcon_2d Release iconset_3x2 1 1 = Inr (QIcon_copy sheet_90x40 30 20 30 20)"
proof -
  have h: "\<not> QPixmap_isNull sheet_90x40" "sint (3::cint) * sint (2::cint) < 2 ^ 31"
    by (simp_all add: QPixmap_isNull_def word_sle_eq)
  have k: "(0::cint) \<le>s 1" "(1::cint) <s 3" "(0::cint) \<le>s 1" "(1::cint) <s 2"
    by (simp_all add: word_sle_eq word_sless_alt)
  show ?thesis
    using h k getIcon_index_coordinate_agree [OF h ctor_3x2 [of Release] k, of Release]
      ctor_3x2 [of Release]
    by simp
qed

section \<open>The validity probe by coordinates\<close>

text \<open>
  C10. \<open>isValid(col, row)\<close> compares only the computed index \<open>row * columns + col\<close> with the
  table length: on a set built from a non-null image with a positive grid it holds
  exactly when the computed index is below \<open>columns * rows\<close>, whatever \<open>col\<close> and \<open>row\<close>
  are; where the int arithmetic does not wrap, the computed index is the integer
  \<open>row * columns + col\<close>. When the index is also not negative, \<open>getIcon(col, row)\<close> returns
  the icon stored at it. In the 3 by 2 example \<open>isValid(5, 0)\<close> holds and \<open>getIcon(5, 0)\<close>
  is the icon of column 2, row 1; \<open>isValid(-1, 1)\<close> holds too.
\<close>

theorem isValid_2d_linear_only:
  assumes "\<not> QPixmap_isNull img" and "0 <s columns" and "0 <s rows"
    and "sint columns * sint rows < 2 ^ 31"
    and "QIconSet_ctor b img (QPoint columns rows) iconSize = Inr s"
  shows "toIndex s col row = row * columns + col
       \<and> (isValid_2d s col row \<longleftrightarrow> sint (toIndex s col row) < sint columns * sint rows)
       \<and> (- (2 ^ 31) \<le> sint row * sint columns + sint col
            \<and> sint row * sint columns + sint col < 2 ^ 31 \<longrightarrow>
          (isValid_2d s col row
             \<longleftrightarrow> sint row * sint columns + sint col < sint columns * sint rows))
       \<and> (isValid_2d s col row \<and> 0 \<le>s toIndex s col row \<longrightarrow>
            getIcon_2d b' s col row = Inr (m_icons s ! nat (sint (toIndex s col row))))"
proof -
  have m: "m_matrixSize s = QPoint columns rows"
    using ctor_fields(2) [OF assms(1,5)] .
  have t: "toIndex s col row = row * columns + col"
    by (simp add: toIndex_def m)
  have l: "int (length (m_icons s)) = sint columns * sint rows"
    using assms(1,5,2,3,4) by (rule ctor_size_length)
  have z: "sint (vector_size (m_icons s)) = sint columns * sint rows"
    using assms(1,5,2,3,4) by (rule ctor_size)
  have v: "isValid_2d s col row \<longleftrightarrow> sint (toIndex s col row) < sint columns * sint rows"
    by (simp add: isValid_2d_def word_sless_alt z)
  have x: "isValid_2d s col row
             \<longleftrightarrow> sint row * sint columns + sint col < sint columns * sint rows"
    if "- (2 ^ 31) \<le> sint row * sint columns + sint col"
      and "sint row * sint columns + sint col < 2 ^ 31"
    using sint_toIndex_exact [OF that] by (simp add: v t)
  have g: "getIcon_2d b' s col row = Inr (m_icons s ! nat (sint (toIndex s col row)))"
    if "isValid_2d s col row" and "0 \<le> sint (toIndex s col row)"
    using that l by (simp add: getIcon_2d_def vector_at_def word_sle_eq v)
  show ?thesis
    using t v x g by (simp add: word_sle_eq)
qed

theorem isValid_2d_linear_only_witness:
  "\<not> QPixmap_isNull sheet_90x40 \<and> (0::cint) <s 3 \<and> (0::cint) <s 2
   \<and> sint (3::cint) * sint (2::cint) < 2 ^ 31
   \<and> QIconSet_ctor Release sheet_90x40 (QPoint 3 2) QPoint_default = Inr iconset_3x2
   \<and> toIndex iconset_3x2 5 0 = 5
   \<and> isValid_2d iconset_3x2 5 0
   \<and> getIcon_2d Release iconset_3x2 5 0 = Inr (QIcon_copy sheet_90x40 60 20 30 20)
   \<and> getIcon_2d Release iconset_3x2 5 0 = getIcon_2d Release iconset_3x2 2 1
   \<and> isValid_2d iconset_3x2 (- 1) 1"
proof -
  have h: "\<not> QPixmap_isNull sheet_90x40" "(0::cint) <s 3" "(0::cint) <s 2"
    "sint (3::cint) * sint (2::cint) < 2 ^ 31"
    by (simp_all add: QPixmap_isNull_def word_sle_eq word_sless_alt)
  note t = isValid_2d_linear_only [OF h ctor_3x2 [of Release]]
  have a: "toIndex iconset_3x2 5 0 = 5" "isValid_2d iconset_3x2 5 0"
    "getIcon_2d Release iconset_3x2 5 0 = Inr (QIcon_copy sheet_90x40 60 20 30 20)"
    using t [of 5 0 Release] by (simp_all add: word_sle_eq)
  have b: "getIcon_2d Release iconset_3x2 2 1 = Inr (QIcon_copy sheet_90x40 60 20 30 20)"
    using t [of 2 1 Release] by (simp add: word_sle_eq)
  have c: "isValid_2d iconset_3x2 (- 1) 1"
    using t [of "- 1" 1 Release] by simp
  show ?thesis
    using h ctor_3x2 [of Release] a b c by simp
qed

section \<open>A grid with no columns or no rows, and the sign of the icon size\<close>

text \<open>
  C7, as the code has it. Built from a non-null image with an explicit icon size and zero
  columns or zero rows, the constructor asserts nothing and returns, in a debug build as
  in a release build, a set with an empty table: every \<open>index \<ge> 0\<close> is invalid and a
  release build's \<open>getIcon(index)\<close> returns the invalid icon. With a positive number of
  columns and of rows (their product an int), the computed icon size has a width and a
  height that are not negative; the width is positive exactly when the image is at least
  \<open>columns\<close> pixels wide, the height exactly when it is at least \<open>rows\<close> pixels high.
\<close>

theorem zero_grid_and_cell_size:
  "(\<not> QPixmap_isNull img \<and> \<not> QPoint_isNull iconSize \<and> (columns = 0 \<or> rows = 0) \<longrightarrow>
      (\<exists>s. QIconSet_ctor b img (QPoint columns rows) iconSize = Inr s \<and> m_icons s = []
          \<and> (\<forall>index. 0 \<le>s index \<longrightarrow>
                \<not> isValid s index \<and> getIcon Release s index = Inr (m_invalidIcon s))))
   \<and> (\<not> QPixmap_isNull img \<and> 0 <s columns \<and> 0 <s rows \<and> sint columns * sint rows < 2 ^ 31 \<longrightarrow>
      (\<exists>s. QIconSet_auto b img (QPoint columns rows) = Inr s
          \<and> 0 \<le>s QPoint_x (getIconSize s) \<and> 0 \<le>s QPoint_y (getIconSize s)
          \<and> (0 <s QPoint_x (getIconSize s) \<longleftrightarrow> columns \<le>s QPixmap_width img)
          \<and> (0 <s QPoint_y (getIconSize s) \<longleftrightarrow> rows \<le>s QPixmap_height img)))"
proof (intro conjI impI)
  assume a: "\<not> QPixmap_isNull img \<and> \<not> QPoint_isNull iconSize \<and> (columns = 0 \<or> rows = 0)"
  then have "QIconSet_ctor b img (QPoint columns rows) iconSize =
           Inr \<lparr>m_iconset = img, m_icons = [], m_matrixSize = QPoint columns rows,
                 m_iconSize = iconSize, m_invalidIcon = QIcon_default\<rparr>"
    by (intro ctor_zero_grid) simp_all
  then show "\<exists>s. QIconSet_ctor b img (QPoint columns rows) iconSize = Inr s \<and> m_icons s = []
          \<and> (\<forall>index. 0 \<le>s index \<longrightarrow>
                \<not> isValid s index \<and> getIcon Release s index = Inr (m_invalidIcon s))"
    by (simp add: isValid_def getIcon_def vector_size_def word_sle_eq word_sless_alt)
next
  assume a: "\<not> QPixmap_isNull img \<and> 0 <s columns \<and> 0 <s rows \<and> sint columns * sint rows < 2 ^ 31"
  have c: "0 < sint columns" and r: "0 < sint rows"
    using a by (simp_all add: word_sless_alt)
  have w: "0 \<le> sint (QPixmap_width img)" and h: "0 \<le> sint (QPixmap_height img)"
    using a by (simp_all add: QPixmap_isNull_def word_sle_eq)
  have n: "\<not> columns * rows <s 0" using a by (intro fits_not_negative) simp_all
  have nz: "columns \<noteq> 0" "rows \<noteq> 0" using a by auto
  have "\<exists>s. QIconSet_auto b img (QPoint columns rows) = Inr s
          \<and> sint (QPoint_x (getIconSize s)) = sint (QPixmap_width img) div sint columns
          \<and> sint (QPoint_y (getIconSize s)) = sint (QPixmap_height img) div sint rows"
    using a by (simp add: QIconSet_auto_def QPoint_default_def ctor_auto QPoint_isNull_def
          n nz getIconSize_def sint_trunc_div w h c r)
  then obtain s where s: "QIconSet_auto b img (QPoint columns rows) = Inr s"
    and x: "sint (QPoint_x (getIconSize s)) = sint (QPixmap_width img) div sint columns"
    and y: "sint (QPoint_y (getIconSize s)) = sint (QPixmap_height img) div sint rows"
    by blast
  have "0 \<le>s QPoint_x (getIconSize s)" "0 \<le>s QPoint_y (getIconSize s)"
    using c r w h by (simp_all add: word_sle_eq x y pos_imp_zdiv_nonneg_iff)
  moreover have "0 <s QPoint_x (getIconSize s) \<longleftrightarrow> columns \<le>s QPixmap_width img"
    using c by (simp add: word_sle_eq word_sless_alt x pos_imp_zdiv_pos_iff)
  moreover have "0 <s QPoint_y (getIconSize s) \<longleftrightarrow> rows \<le>s QPixmap_height img"
    using r by (simp add: word_sle_eq word_sless_alt y pos_imp_zdiv_pos_iff)
  ultimately show "\<exists>s. QIconSet_auto b img (QPoint columns rows) = Inr s
          \<and> 0 \<le>s QPoint_x (getIconSize s) \<and> 0 \<le>s QPoint_y (getIconSize s)
          \<and> (0 <s QPoint_x (getIconSize s) \<longleftrightarrow> columns \<le>s QPixmap_width img)
          \<and> (0 <s QPoint_y (getIconSize s) \<longleftrightarrow> rows \<le>s QPixmap_height img)"
    using s by blast
qed

theorem zero_grid_and_cell_size_witness:
  "\<not> QPixmap_isNull sheet_90x40 \<and> \<not> QPoint_isNull (QPoint 30 20)
   \<and> ((0::cint) = 0 \<or> (2::cint) = 0)
   \<and> (\<exists>s. QIconSet_ctor Debug sheet_90x40 (QPoint 0 2) (QPoint 30 20) = Inr s \<and> m_icons s = []
          \<and> \<not> isValid s 0 \<and> getIcon Release s 0 = Inr (m_invalidIcon s))
   \<and> (0::cint) <s 3 \<and> (0::cint) <s 2 \<and> sint (3::cint) * sint (2::cint) < 2 ^ 31
   \<and> (\<exists>s. QIconSet_auto Debug sheet_90x40 (QPoint 3 2) = Inr s
          \<and> 0 <s QPoint_x (getIconSize s) \<and> 0 <s QPoint_y (getIconSize s))"
proof -
  have h1: "\<not> QPixmap_isNull sheet_90x40 \<and> \<not> QPoint_isNull (QPoint 30 20)
            \<and> ((0::cint) = 0 \<or> (2::cint) = 0)"
    by (simp add: QPixmap_isNull_def QPoint_isNull_def word_sle_eq)
  have h2: "\<not> QPixmap_isNull sheet_90x40 \<and> (0::cint) <s 3 \<and> (0::cint) <s 2
            \<and> sint (3::cint) * sint (2::cint) < 2 ^ 31"
    by (simp add: QPixmap_isNull_def word_sle_eq word_sless_alt)
  note t = zero_grid_and_cell_size [of sheet_90x40 _ _ _ Debug]
  obtain s1 where s1: "QIconSet_ctor Debug sheet_90x40 (QPoint 0 2) (QPoint 30 20) = Inr s1"
    "m_icons s1 = []"
    "\<forall>index. 0 \<le>s index \<longrightarrow>
        \<not> isValid s1 index \<and> getIcon Release s1 index = Inr (m_invalidIcon s1)"
    using t [of "QPoint 30 20" 0 2, THEN conjunct1, rule_format, OF h1] by blast
  have z: "\<not> isValid s1 0 \<and> getIcon Release s1 0 = Inr (m_invalidIcon s1)"
    using s1(3) by (simp add: word_sle_eq)
  obtain s2 where s2: "QIconSet_auto Debug sheet_90x40 (QPoint 3 2) = Inr s2"
    "0 <s QPoint_x (getIconSize s2) \<longleftrightarrow> (3::cint) \<le>s QPixmap_width sheet_90x40"
    "0 <s QPoint_y (getIconSize s2) \<longleftrightarrow> (2::cint) \<le>s QPixmap_height sheet_90x40"
    using t [of QPoint_default 3 2, THEN conjunct2, rule_format, OF h2] by blast
  have p: "0 <s QPoint_x (getIconSize s2)" "0 <s QPoint_y (getIconSize s2)"
    using s2(2,3) by (simp_all add: word_sle_eq)
  show ?thesis
    using h1 h2 s1(1,2) z s2(1) p by blast
qed

text \<open>
  The claim as it was stated fails: with zero columns and an explicit icon size a debug
  build asserts nothing; with zero columns and the computed icon size the constructor
  divides the width by zero; and a 1 by 1 image cut into 2 columns has the icon width 0.
\<close>

theorem zero_grid_counterexample:
  "QIconSet_ctor Debug sheet_90x40 (QPoint 0 2) (QPoint 30 20) =
     Inr \<lparr>m_iconset = sheet_90x40, m_icons = [], m_matrixSize = QPoint 0 2,
           m_iconSize = QPoint 30 20, m_invalidIcon = QIcon_default\<rparr>
   \<and> QIconSet_auto Release sheet_90x40 (QPoint 0 2) = Inl DivisionByZero
   \<and> QIconSet_auto Release (QPixmap ''pixel.png'' 1 1) (QPoint 2 1) =
     Inr \<lparr>m_iconset = QPixmap ''pixel.png'' 1 1,
           m_icons = [QIcon_copy (QPixmap ''pixel.png'' 1 1) 0 0 0 1,
                      QIcon_copy (QPixmap ''pixel.png'' 1 1) 0 0 0 1],
           m_matrixSize = QPoint 2 1, m_iconSize = QPoint 0 1,
           m_invalidIcon = QIcon_default\<rparr>"
  by (simp add: QIconSet_auto_def QIconSet_ctor_def QIconSet_setup_def QPixmap_isNull_def
        QPoint_isNull_def QPoint_default_def int_div_def signed_divide_int_def word_sless_alt
        word_sle_eq setup_y.simps setup_x.simps)

end
